theory Spec2Isabelle
  imports Complex_Main
begin

section \<open>FullTravelBot: a shallow embedding of src/FullTravelBot.py\<close>

text \<open>
  Python \<open>int\<close> is \<open>int\<close>, \<open>str\<close> is \<open>string\<close> (the UTF-8 bytes of the text; no
  property below depends on a length), a \<open>dict\<close> literal is an association list read
  with \<open>map_of\<close>, \<open>None\<close> is \<open>None\<close>, and a raised exception is the \<open>Inl\<close> side of a
  sum. Calls that leave the process (Redis, the database, Telegram, the payment vendors)
  take their outcome from an explicit parameter and leave their effect in an explicit
  state.
\<close>

datatype exn =
    AttributeError
  | KeyError
  | NameError
  | ValueError
  | DetachedInstanceError
  | RedisError
  | DatabaseError
  | IntegrityError
  | TelegramError
  | VendorError

subsection \<open>RateLimiter (lines 138-155)\<close>

text \<open>
  A Redis sorted set holds members, each with one score. A member is stored as the
  decimal text of the integer passed to \<open>zadd\<close>; that text determines the integer, so
  the member is modelled by the integer itself. The order of the list carries no meaning.
\<close>

type_synonym zset = "(int \<times> int) list"

definition zadd :: "zset \<Rightarrow> int \<Rightarrow> int \<Rightarrow> zset" where
  \<comment> \<open>ZADD key score member: a member already present only gets the new score\<close>
  "zadd z member score = (member, score) # filter (\<lambda>p. fst p \<noteq> member) z"

definition zremrangebyscore :: "zset \<Rightarrow> int \<Rightarrow> int \<Rightarrow> zset" where
  \<comment> \<open>ZREMRANGEBYSCORE key lo hi: both bounds inclusive\<close>
  "zremrangebyscore z lo hi = filter (\<lambda>p. \<not> (lo \<le> snd p \<and> snd p \<le> hi)) z"

definition zcard :: "zset \<Rightarrow> nat" where
  "zcard z = length z"

text \<open>
  The key \<open>f"rate_limit:{user_id}"\<close> is one key per \<open>user_id\<close>. A key holds its sorted
  set and the time at which \<open>EXPIRE\<close> lets Redis delete it; times are the whole seconds
  \<open>int(time.time())\<close> reads.
\<close>

datatype rkey = RateLimitKey int

record rentry =
  members :: zset
  deadline :: "int option"

type_synonym redis = "rkey \<Rightarrow> rentry option"

definition zset_at :: "redis \<Rightarrow> int \<Rightarrow> rkey \<Rightarrow> zset" where
  \<comment> \<open>the sorted set a command finds under the key at time \<open>now\<close>: a missing or
      expired key is the empty set\<close>
  "zset_at r now k =
     (case r k of
        None \<Rightarrow> []
      | Some e \<Rightarrow>
          (case deadline e of
             None \<Rightarrow> members e
           | Some d \<Rightarrow> if d \<le> now then [] else members e))"

definition rate_pipeline :: "redis \<Rightarrow> int \<Rightarrow> int \<Rightarrow> (nat \<times> nat \<times> nat \<times> bool) \<times> redis" where
  \<comment> \<open>lines 145-153: \<open>current\<close> is \<open>int(time.time())\<close>. The pipeline runs zadd,
      zremrangebyscore, zcard and expire in this order and returns their four results:
      the number of members added, the number removed, the cardinality, and whether the
      key was there to take the timeout. Redis deletes a sorted set that becomes empty.\<close>
  "rate_pipeline r current user_id =
     (let key = RateLimitKey user_id;
          z0 = zset_at r current key;
          z1 = zadd z0 current current;
          z2 = zremrangebyscore z1 0 (current - 60);
          r' = (if z2 = [] then r(key := None)
                else r(key \<mapsto> \<lparr>members = z2, deadline = Some (current + 60)\<rparr>))
      in ((length z1 - length z0, length z1 - length z2, zcard z2, z2 \<noteq> []), r'))"

definition check_rate_limit :: "int \<Rightarrow> redis \<Rightarrow> int \<Rightarrow> int \<Rightarrow> bool \<times> redis" where
  \<comment> \<open>lines 144-155: \<open>limit\<close> is \<open>self.limit\<close>; the answer is \<open>results[2] <= self.limit\<close>\<close>
  "check_rate_limit limit r current user_id =
     (case rate_pipeline r current user_id of
        ((added, removed, n, expiring), r') \<Rightarrow> (int n \<le> limit, r'))"

fun check_all :: "int \<Rightarrow> redis \<Rightarrow> (int \<times> int) list \<Rightarrow> bool list \<times> redis" where
  \<comment> \<open>a sequence of calls, each given as (current, user_id), in the order made\<close>
  "check_all limit r [] = ([], r)"
| "check_all limit r ((current, user_id) # cs) =
     (let (b, r') = check_rate_limit limit r current user_id;
          (bs, r'') = check_all limit r' cs
      in (b # bs, r''))"

subsection \<open>Config (lines 72-91)\<close>

text \<open>
  The process environment maps a variable name to its text, or to nothing. \<open>os.getenv\<close>
  returns \<open>None\<close> for a variable that is not set, and \<open>all\<close> asks each result for its
  truth: \<open>None\<close> and the empty text are false.
\<close>

type_synonym environ = "string \<Rightarrow> string option"

definition getenv :: "environ \<Rightarrow> string \<Rightarrow> string option" where
  "getenv env var = env var"

definition truthy :: "string option \<Rightarrow> bool" where
  "truthy v = (case v of None \<Rightarrow> False | Some s \<Rightarrow> s \<noteq> [])"

definition required_vars :: "string list" where
  "required_vars =
     [''BOT_TOKEN'', ''DATABASE_URL'', ''REDIS_URL'', ''PAYPAL_CLIENT_ID'', ''STRIPE_SECRET_KEY'']"

definition validate :: "environ \<Rightarrow> bool" where
  "validate env = list_all (\<lambda>var. truthy (getenv env var)) required_vars"

definition SUPPORTED_LANGUAGES :: "string list" where
  "SUPPORTED_LANGUAGES = [''en'', ''ru'', ''es'', ''zh'']"

subsection \<open>Analytics (lines 93-110)\<close>

text \<open>
  A metric has a name, a help text, label names, and one count for each tuple of label
  texts; a count that was never touched is 0. \<open>labels(...).inc()\<close> adds one.
\<close>

record metric =
  metric_name :: string
  documentation :: string
  labelnames :: "string list"
  samples :: "string list \<Rightarrow> nat"

record Analytics =
  command_counter :: metric
  payment_counter :: metric
  response_time :: metric

definition Analytics_init :: Analytics where
  "Analytics_init =
     \<lparr>command_counter =
        \<lparr>metric_name = ''bot_commands_total'',
         documentation =
           [CHR 0xD0, CHR 0x9E, CHR 0xD0, CHR 0xB1, CHR 0xD1, CHR 0x89, CHR 0xD0, CHR 0xB5, CHR
           0xD0, CHR 0xB5] @ '' '' @ [CHR 0xD0, CHR 0xBA, CHR 0xD0, CHR 0xBE, CHR 0xD0, CHR
           0xBB, CHR 0xD0, CHR 0xB8, CHR 0xD1, CHR 0x87, CHR 0xD0, CHR 0xB5, CHR 0xD1, CHR 0x81,
           CHR 0xD1, CHR 0x82, CHR 0xD0, CHR 0xB2, CHR 0xD0, CHR 0xBE] @ '' '' @ [CHR 0xD0, CHR
           0xBF, CHR 0xD0, CHR 0xBE, CHR 0xD0, CHR 0xBB, CHR 0xD1, CHR 0x83, CHR 0xD1, CHR 0x87,
           CHR 0xD0, CHR 0xB5, CHR 0xD0, CHR 0xBD, CHR 0xD0, CHR 0xBD, CHR 0xD1, CHR 0x8B, CHR
           0xD1, CHR 0x85] @ '' '' @ [CHR 0xD0, CHR 0xBA, CHR 0xD0, CHR 0xBE, CHR 0xD0, CHR
           0xBC, CHR 0xD0, CHR 0xB0, CHR 0xD0, CHR 0xBD, CHR 0xD0, CHR 0xB4],
         labelnames = [''command''],
         samples = (\<lambda>labelvalues. 0)\<rparr>,
      payment_counter =
        \<lparr>metric_name = ''payments_total'',
         documentation =
           [CHR 0xD0, CHR 0x9E, CHR 0xD0, CHR 0xB1, CHR 0xD1, CHR 0x89, CHR 0xD0, CHR 0xB5, CHR
           0xD0, CHR 0xB5] @ '' '' @ [CHR 0xD0, CHR 0xBA, CHR 0xD0, CHR 0xBE, CHR 0xD0, CHR
           0xBB, CHR 0xD0, CHR 0xB8, CHR 0xD1, CHR 0x87, CHR 0xD0, CHR 0xB5, CHR 0xD1, CHR 0x81,
           CHR 0xD1, CHR 0x82, CHR 0xD0, CHR 0xB2, CHR 0xD0, CHR 0xBE] @ '' '' @ [CHR 0xD0, CHR
           0xBE, CHR 0xD0, CHR 0xB1, CHR 0xD1, CHR 0x80, CHR 0xD0, CHR 0xB0, CHR 0xD0, CHR 0xB1,
           CHR 0xD0, CHR 0xBE, CHR 0xD1, CHR 0x82, CHR 0xD0, CHR 0xB0, CHR 0xD0, CHR 0xBD, CHR
           0xD0, CHR 0xBD, CHR 0xD1, CHR 0x8B, CHR 0xD1, CHR 0x85] @ '' '' @ [CHR 0xD0, CHR
           0xBF, CHR 0xD0, CHR 0xBB, CHR 0xD0, CHR 0xB0, CHR 0xD1, CHR 0x82, CHR 0xD0, CHR 0xB5,
           CHR 0xD0, CHR 0xB6, CHR 0xD0, CHR 0xB5, CHR 0xD0, CHR 0xB9],
         labelnames = [''provider'', ''status''],
         samples = (\<lambda>labelvalues. 0)\<rparr>,
      response_time =
        \<lparr>metric_name = ''response_time_seconds'',
         documentation =
           [CHR 0xD0, CHR 0x92, CHR 0xD1, CHR 0x80, CHR 0xD0, CHR 0xB5, CHR 0xD0, CHR 0xBC, CHR
           0xD1, CHR 0x8F] @ '' '' @ [CHR 0xD0, CHR 0xBE, CHR 0xD1, CHR 0x82, CHR 0xD0, CHR
           0xB2, CHR 0xD0, CHR 0xB5, CHR 0xD1, CHR 0x82, CHR 0xD0, CHR 0xB0] @ '' '' @ [CHR
           0xD0, CHR 0xB2] @ '' '' @ [CHR 0xD1, CHR 0x81, CHR 0xD0, CHR 0xB5, CHR 0xD0, CHR
           0xBA, CHR 0xD1, CHR 0x83, CHR 0xD0, CHR 0xBD, CHR 0xD0, CHR 0xB4, CHR 0xD0, CHR 0xB0,
           CHR 0xD1, CHR 0x85],
         labelnames = [''endpoint''],
         samples = (\<lambda>labelvalues. 0)\<rparr>\<rparr>"

definition inc :: "metric \<Rightarrow> string list \<Rightarrow> metric" where
  "inc m labelvalues = m\<lparr>samples := (samples m)(labelvalues := samples m labelvalues + 1)\<rparr>"

subsection \<open>DatabaseManager (lines 50-58, 112-136)\<close>

text \<open>
  The \<open>users\<close> table is the list of its rows in insertion order. The columns \<open>id\<close>
  (assigned by the database) and \<open>preferences\<close> (never written) are read by nothing
  below and are left out. \<open>telegram_id\<close> is declared unique, so the commit of a second
  row with the same \<open>telegram_id\<close> raises. The two \<open>datetime.utcnow()\<close> readings of
  \<open>create_user\<close> are parameters. Whether the width of the \<open>language\<close> column is
  enforced is up to the database behind \<open>DATABASE_URL\<close>; a commit that the database
  refuses is a call that raises (see \<open>faults\<close> below).
\<close>

record User =
  telegram_id :: int
  language :: string
  created_at :: int
  last_active :: int

text \<open>
  What a method of \<open>DatabaseManager\<close> hands back is an object of the ORM, not a row.
  Both methods return from inside \<open>with self.get_session() as session\<close>, so the object
  has left its session when the caller gets it. \<open>get_user\<close> only queries: the object
  keeps the column values it was loaded with (\<open>Loaded\<close>). \<open>create_user\<close> commits, and
  the session factory is made with the default \<open>expire_on_commit\<close>, so the commit
  expires every attribute of the object; with the session gone nothing can load them
  again (\<open>Expired\<close>), and reading one raises \<open>DetachedInstanceError\<close>.
\<close>

datatype user_object = Loaded User | Expired

definition read_language :: "user_object \<Rightarrow> exn + string" where
  \<comment> \<open>\<open>user.language\<close>\<close>
  "read_language obj =
     (case obj of Loaded row \<Rightarrow> Inr (language row) | Expired \<Rightarrow> Inl DetachedInstanceError)"

definition get_user :: "User list \<Rightarrow> int \<Rightarrow> user_object option" where
  \<comment> \<open>lines 122-124: \<open>first()\<close> is the first matching row, or \<open>None\<close>\<close>
  "get_user tbl tid = map_option Loaded (find (\<lambda>row. telegram_id row = tid) tbl)"

definition create_user ::
  "User list \<Rightarrow> int \<Rightarrow> string \<Rightarrow> int \<Rightarrow> int \<Rightarrow> exn + (user_object \<times> User list)" where
  \<comment> \<open>lines 126-136: the row is added and committed, the object returned is expired\<close>
  "create_user tbl tid lang utc1 utc2 =
     (let user = \<lparr>telegram_id = tid, language = lang, created_at = utc1, last_active = utc2\<rparr>
      in if list_ex (\<lambda>row. telegram_id row = tid) tbl then Inl IntegrityError
         else Inr (Expired, tbl @ [user]))"

subsection \<open>Translations (lines 157-190)\<close>
definition translations_en :: "(string \<times> string) list" where
  "translations_en =
     [(''welcome'',
         ''Welcome to Travel Assistant!''),
      (''select_service'',
         ''Please select a service:''),
      (''payment_error'',
         ''Payment error occurred.''),
      (''feedback_thanks'',
         ''Thank you for your feedback!'')]"

definition translations_ru :: "(string \<times> string) list" where
  "translations_ru =
     [(''welcome'',
         [CHR 0xD0, CHR 0x94, CHR 0xD0, CHR 0xBE, CHR 0xD0, CHR 0xB1, CHR 0xD1, CHR 0x80, CHR
         0xD0, CHR 0xBE] @ '' '' @ [CHR 0xD0, CHR 0xBF, CHR 0xD0, CHR 0xBE, CHR 0xD0, CHR 0xB6,
         CHR 0xD0, CHR 0xB0, CHR 0xD0, CHR 0xBB, CHR 0xD0, CHR 0xBE, CHR 0xD0, CHR 0xB2, CHR
         0xD0, CHR 0xB0, CHR 0xD1, CHR 0x82, CHR 0xD1, CHR 0x8C] @ '' '' @ [CHR 0xD0, CHR 0xB2]
         @ '' '' @ [CHR 0xD0, CHR 0xBF, CHR 0xD0, CHR 0xBE, CHR 0xD0, CHR 0xBC, CHR 0xD0, CHR
         0xBE, CHR 0xD1, CHR 0x89, CHR 0xD0, CHR 0xBD, CHR 0xD0, CHR 0xB8, CHR 0xD0, CHR 0xBA] @
         '' '' @ [CHR 0xD0, CHR 0xBF, CHR 0xD1, CHR 0x83, CHR 0xD1, CHR 0x82, CHR 0xD0, CHR
         0xB5, CHR 0xD1, CHR 0x88, CHR 0xD0, CHR 0xB5, CHR 0xD1, CHR 0x81, CHR 0xD1, CHR 0x82,
         CHR 0xD0, CHR 0xB2, CHR 0xD0, CHR 0xB5, CHR 0xD0, CHR 0xBD, CHR 0xD0, CHR 0xBD, CHR
         0xD0, CHR 0xB8, CHR 0xD0, CHR 0xBA, CHR 0xD0, CHR 0xB0] @ ''!''),
      (''select_service'',
         [CHR 0xD0, CHR 0x9F, CHR 0xD0, CHR 0xBE, CHR 0xD0, CHR 0xB6, CHR 0xD0, CHR 0xB0, CHR
         0xD0, CHR 0xBB, CHR 0xD1, CHR 0x83, CHR 0xD0, CHR 0xB9, CHR 0xD1, CHR 0x81, CHR 0xD1,
         CHR 0x82, CHR 0xD0, CHR 0xB0] @ '', '' @ [CHR 0xD0, CHR 0xB2, CHR 0xD1, CHR 0x8B, CHR
         0xD0, CHR 0xB1, CHR 0xD0, CHR 0xB5, CHR 0xD1, CHR 0x80, CHR 0xD0, CHR 0xB8, CHR 0xD1,
         CHR 0x82, CHR 0xD0, CHR 0xB5] @ '' '' @ [CHR 0xD1, CHR 0x83, CHR 0xD1, CHR 0x81, CHR
         0xD0, CHR 0xBB, CHR 0xD1, CHR 0x83, CHR 0xD0, CHR 0xB3, CHR 0xD1, CHR 0x83] @ '':''),
      (''payment_error'',
         [CHR 0xD0, CHR 0x9F, CHR 0xD1, CHR 0x80, CHR 0xD0, CHR 0xBE, CHR 0xD0, CHR 0xB8, CHR
         0xD0, CHR 0xB7, CHR 0xD0, CHR 0xBE, CHR 0xD1, CHR 0x88, CHR 0xD0, CHR 0xBB, CHR 0xD0,
         CHR 0xB0] @ '' '' @ [CHR 0xD0, CHR 0xBE, CHR 0xD1, CHR 0x88, CHR 0xD0, CHR 0xB8, CHR
         0xD0, CHR 0xB1, CHR 0xD0, CHR 0xBA, CHR 0xD0, CHR 0xB0] @ '' '' @ [CHR 0xD0, CHR 0xBE,
         CHR 0xD0, CHR 0xBF, CHR 0xD0, CHR 0xBB, CHR 0xD0, CHR 0xB0, CHR 0xD1, CHR 0x82, CHR
         0xD1, CHR 0x8B] @ ''.''),
      (''feedback_thanks'',
         [CHR 0xD0, CHR 0xA1, CHR 0xD0, CHR 0xBF, CHR 0xD0, CHR 0xB0, CHR 0xD1, CHR 0x81, CHR
         0xD0, CHR 0xB8, CHR 0xD0, CHR 0xB1, CHR 0xD0, CHR 0xBE] @ '' '' @ [CHR 0xD0, CHR 0xB7,
         CHR 0xD0, CHR 0xB0] @ '' '' @ [CHR 0xD0, CHR 0xB2, CHR 0xD0, CHR 0xB0, CHR 0xD1, CHR
         0x88] @ '' '' @ [CHR 0xD0, CHR 0xBE, CHR 0xD1, CHR 0x82, CHR 0xD0, CHR 0xB7, CHR 0xD1,
         CHR 0x8B, CHR 0xD0, CHR 0xB2] @ ''!'')]"

definition translations_es :: "(string \<times> string) list" where
  "translations_es =
     [(''welcome'',
         [CHR 0xC2, CHR 0xA1] @ ''Bienvenido al Asistente de Viajes!''),
      (''select_service'',
         ''Por favor, seleccione un servicio:''),
      (''payment_error'',
         ''Ocurri'' @ [CHR 0xC3, CHR 0xB3] @ '' un error en el pago.''),
      (''feedback_thanks'',
         [CHR 0xC2, CHR 0xA1] @ ''Gracias por su comentario!'')]"

definition translations_zh :: "(string \<times> string) list" where
  "translations_zh =
     [(''welcome'',
         [CHR 0xE6, CHR 0xAC, CHR 0xA2, CHR 0xE8, CHR 0xBF, CHR 0x8E, CHR 0xE4, CHR 0xBD, CHR
         0xBF, CHR 0xE7, CHR 0x94, CHR 0xA8, CHR 0xE6, CHR 0x97, CHR 0x85, CHR 0xE8, CHR 0xA1,
         CHR 0x8C, CHR 0xE5, CHR 0x8A, CHR 0xA9, CHR 0xE6, CHR 0x89, CHR 0x8B, CHR 0xEF, CHR
         0xBC, CHR 0x81]),
      (''select_service'',
         [CHR 0xE8, CHR 0xAF, CHR 0xB7, CHR 0xE9, CHR 0x80, CHR 0x89, CHR 0xE6, CHR 0x8B, CHR
         0xA9, CHR 0xE6, CHR 0x9C, CHR 0x8D, CHR 0xE5, CHR 0x8A, CHR 0xA1, CHR 0xEF, CHR 0xBC,
         CHR 0x9A]),
      (''payment_error'',
         [CHR 0xE6, CHR 0x94, CHR 0xAF, CHR 0xE4, CHR 0xBB, CHR 0x98, CHR 0xE5, CHR 0x8F, CHR
         0x91, CHR 0xE7, CHR 0x94, CHR 0x9F, CHR 0xE9, CHR 0x94, CHR 0x99, CHR 0xE8, CHR 0xAF,
         CHR 0xAF, CHR 0xE3, CHR 0x80, CHR 0x82]),
      (''feedback_thanks'',
         [CHR 0xE6, CHR 0x84, CHR 0x9F, CHR 0xE8, CHR 0xB0, CHR 0xA2, CHR 0xE6, CHR 0x82, CHR
         0xA8, CHR 0xE7, CHR 0x9A, CHR 0x84, CHR 0xE5, CHR 0x8F, CHR 0x8D, CHR 0xE9, CHR 0xA6,
         CHR 0x88, CHR 0xEF, CHR 0xBC, CHR 0x81])]"

definition Translations_init :: "(string \<times> (string \<times> string) list) list" where
  "Translations_init =
     [(''en'', translations_en), (''ru'', translations_ru),
      (''es'', translations_es), (''zh'', translations_zh)]"

definition get_text ::
  "(string \<times> (string \<times> string) list) list \<Rightarrow> string \<Rightarrow> string \<Rightarrow> exn + string" where
  \<comment> \<open>the first argument is \<open>self.translations\<close>. Python evaluates both arguments of
      the outer \<open>get\<close> before the call, so a key missing from \<open>'en'\<close> raises even when
      the language's own table has it.\<close>
  "get_text tr key lang =
     (case map_of tr ''en'' of
        None \<Rightarrow> Inl KeyError
      | Some en \<Rightarrow>
          (let tbl = (case map_of tr lang of None \<Rightarrow> en | Some t \<Rightarrow> t)
           in case map_of tr ''en'' of
                None \<Rightarrow> Inl KeyError
              | Some en' \<Rightarrow>
                  (case map_of en' key of
                     None \<Rightarrow> Inl KeyError
                   | Some dflt \<Rightarrow>
                       Inr (case map_of tbl key of None \<Rightarrow> dflt | Some v \<Rightarrow> v))))"

subsection \<open>PaymentManager (lines 39-42, 60-70, 192-287)\<close>

datatype PaymentProvider = PAYPAL | STRIPE | CRYPTO

fun provider_value :: "PaymentProvider \<Rightarrow> string" where
  "provider_value PAYPAL = ''paypal''"
| "provider_value STRIPE = ''stripe''"
| "provider_value CRYPTO = ''crypto''"

text \<open>
  Python does not enforce the annotation \<open>provider: PaymentProvider\<close>: the argument is a
  member of the enumeration or any other object, such as the text \<open>"paypal"\<close> or
  \<open>None\<close>. A member equals only itself, so the two comparisons of \<open>create_payment\<close> are
  false for every other object, which is kept here by its printed form.
\<close>

datatype provider_arg = Member PaymentProvider | NonMember string

record Transaction =
  txn_user_id :: int
  txn_amount :: real
  txn_currency :: string
  txn_provider :: string
  txn_status :: string

text \<open>
  The vendor SDKs are outside the program. Each call made to one is appended to
  \<open>vendor_calls\<close>, with the amount, currency and description it was built from (the
  request shows the amount with two decimals for PayPal and in whole cents for Stripe,
  both floating-point conversions that are not modelled), and its outcome is read from
  \<open>vendors\<close>: the call raises, or (PayPal) \<open>create()\<close> answers false, or it succeeds with
  the identifiers the vendor chose.
\<close>

datatype vendor_call =
    PayPalPaymentCreate real string string
  | StripeSessionCreate real string string

datatype paypal_outcome = PayPalRaises | PayPalFalse | PayPalTrue string "string list"

datatype stripe_outcome = StripeRaises | StripeSession string string

record vendors =
  paypal_resp :: paypal_outcome
  stripe_resp :: stripe_outcome

record pay_world =
  vendor_calls :: "vendor_call list"
  transactions :: "Transaction list"

datatype pyval = Str string | StrList "string list"

type_synonym payment_ref = "(string \<times> pyval) list"

definition create_paypal_payment ::
  "vendors \<Rightarrow> real \<Rightarrow> string \<Rightarrow> string \<Rightarrow> pay_world \<Rightarrow> (exn + payment_ref option) \<times> pay_world" where
  "create_paypal_payment v amount currency description w =
     (let w' = w\<lparr>vendor_calls := vendor_calls w @ [PayPalPaymentCreate amount currency description]\<rparr>
      in case paypal_resp v of
           PayPalRaises \<Rightarrow> (Inl VendorError, w')
         | PayPalFalse \<Rightarrow> (Inr None, w')
         | PayPalTrue pid links \<Rightarrow>
             (Inr (Some [(''id'', Str pid), (''links'', StrList links),
                         (''provider'', Str (provider_value PAYPAL))]), w'))"

definition create_stripe_payment ::
  "vendors \<Rightarrow> real \<Rightarrow> string \<Rightarrow> string \<Rightarrow> pay_world \<Rightarrow> (exn + payment_ref option) \<times> pay_world" where
  \<comment> \<open>its own \<open>except Exception\<close> turns a raising call into \<open>None\<close>\<close>
  "create_stripe_payment v amount currency description w =
     (let w' = w\<lparr>vendor_calls := vendor_calls w @ [StripeSessionCreate amount currency description]\<rparr>
      in case stripe_resp v of
           StripeRaises \<Rightarrow> (Inr None, w')
         | StripeSession sid url \<Rightarrow>
             (Inr (Some [(''id'', Str sid), (''url'', Str url),
                         (''provider'', Str (provider_value STRIPE))]), w'))"

definition create_payment_try ::
  "vendors \<Rightarrow> real \<Rightarrow> string \<Rightarrow> provider_arg \<Rightarrow> string \<Rightarrow> pay_world
     \<Rightarrow> (exn + payment_ref option) \<times> pay_world" where
  \<comment> \<open>lines 217-222, the body of the \<open>try\<close>\<close>
  "create_payment_try v amount currency provider description w =
     (if provider = Member PAYPAL then create_paypal_payment v amount currency description w
      else if provider = Member STRIPE then create_stripe_payment v amount currency description w
      else (Inl ValueError, w))"

definition create_payment ::
  "vendors \<Rightarrow> real \<Rightarrow> string \<Rightarrow> provider_arg \<Rightarrow> string \<Rightarrow> pay_world
     \<Rightarrow> payment_ref option \<times> pay_world" where
  \<comment> \<open>lines 216-225: \<open>except Exception\<close> logs and returns \<open>None\<close>\<close>
  "create_payment v amount currency provider description w =
     (case create_payment_try v amount currency provider description w of
        (Inl e, w') \<Rightarrow> (None, w')
      | (Inr res, w') \<Rightarrow> (res, w'))"

subsection \<open>EnhancedTravelBot (lines 289-351)\<close>

text \<open>
  An update carries the sender, if any, with the locale Telegram reports for them, the
  message it is about and its effective message, each by its id or absent. What the bot
  sends is appended to \<open>outbox\<close>.
\<close>

record TgUser =
  user_id :: int
  language_code :: "string option"

record Update =
  effective_user :: "TgUser option"
  message :: "int option"
  effective_message :: "int option"

record outgoing =
  in_reply_to :: int
  content :: string
  parse_mode :: "string option"
  reply_markup :: "string list list option"

text \<open>
  The calls of \<open>start\<close> that leave the process, each of which can raise; \<open>faults\<close> says
  which of them do in the run at hand. \<open>current\<close> is \<open>int(time.time())\<close> as the rate
  limiter reads it, \<open>utc_created\<close> and \<open>utc_active\<close> the two clock readings of
  \<open>create_user\<close>.
\<close>

datatype site = AtRedis | AtGetUser | AtCreateUser | AtReply | AtErrorReply

record inputs =
  faults :: "site \<Rightarrow> bool"
  current :: int
  utc_created :: int
  utc_active :: int

record bot =
  rate_limit :: int
  redis_store :: redis
  users :: "User list"
  analytics :: Analytics
  translation_table :: "(string \<times> (string \<times> string) list) list"
  outbox :: "outgoing list"

definition END :: int where
  \<comment> \<open>\<open>ConversationHandler.END\<close> of the bot framework\<close>
  "END = - 1"

definition MARKDOWN :: string where
  \<comment> \<open>\<open>ParseMode.MARKDOWN\<close> of the bot framework\<close>
  "MARKDOWN = ''Markdown''"

definition rate_limit_notice :: string where
  "rate_limit_notice =
     [CHR 0xD0, CHR 0xA1, CHR 0xD0, CHR 0xBB, CHR 0xD0, CHR 0xB8, CHR 0xD1, CHR 0x88, CHR 0xD0,
     CHR 0xBA, CHR 0xD0, CHR 0xBE, CHR 0xD0, CHR 0xBC] @ '' '' @ [CHR 0xD0, CHR 0xBC, CHR 0xD0,
     CHR 0xBD, CHR 0xD0, CHR 0xBE, CHR 0xD0, CHR 0xB3, CHR 0xD0, CHR 0xBE] @ '' '' @ [CHR 0xD0,
     CHR 0xB7, CHR 0xD0, CHR 0xB0, CHR 0xD0, CHR 0xBF, CHR 0xD1, CHR 0x80, CHR 0xD0, CHR 0xBE,
     CHR 0xD1, CHR 0x81, CHR 0xD0, CHR 0xBE, CHR 0xD0, CHR 0xB2] @ ''. '' @ [CHR 0xD0, CHR 0x9F,
     CHR 0xD0, CHR 0xBE, CHR 0xD0, CHR 0xB6, CHR 0xD0, CHR 0xB0, CHR 0xD0, CHR 0xBB, CHR 0xD1,
     CHR 0x83, CHR 0xD0, CHR 0xB9, CHR 0xD1, CHR 0x81, CHR 0xD1, CHR 0x82, CHR 0xD0, CHR 0xB0] @
     '', '' @ [CHR 0xD0, CHR 0xBF, CHR 0xD0, CHR 0xBE, CHR 0xD0, CHR 0xBF, CHR 0xD1, CHR 0x80,
     CHR 0xD0, CHR 0xBE, CHR 0xD0, CHR 0xB1, CHR 0xD1, CHR 0x83, CHR 0xD0, CHR 0xB9, CHR 0xD1,
     CHR 0x82, CHR 0xD0, CHR 0xB5] @ '' '' @ [CHR 0xD0, CHR 0xBF, CHR 0xD0, CHR 0xBE, CHR 0xD0,
     CHR 0xB7, CHR 0xD0, CHR 0xB6, CHR 0xD0, CHR 0xB5] @ ''.''"

definition error_msg :: string where
  "error_msg =
     [CHR 0xD0, CHR 0x9F, CHR 0xD1, CHR 0x80, CHR 0xD0, CHR 0xBE, CHR 0xD0, CHR 0xB8, CHR 0xD0,
     CHR 0xB7, CHR 0xD0, CHR 0xBE, CHR 0xD1, CHR 0x88, CHR 0xD0, CHR 0xBB, CHR 0xD0, CHR 0xB0] @
     '' '' @ [CHR 0xD0, CHR 0xBE, CHR 0xD1, CHR 0x88, CHR 0xD0, CHR 0xB8, CHR 0xD0, CHR 0xB1,
     CHR 0xD0, CHR 0xBA, CHR 0xD0, CHR 0xB0] @ ''. '' @ [CHR 0xD0, CHR 0x9F, CHR 0xD0, CHR 0xBE,
     CHR 0xD0, CHR 0xB6, CHR 0xD0, CHR 0xB0, CHR 0xD0, CHR 0xBB, CHR 0xD1, CHR 0x83, CHR 0xD0,
     CHR 0xB9, CHR 0xD1, CHR 0x81, CHR 0xD1, CHR 0x82, CHR 0xD0, CHR 0xB0] @ '', '' @ [CHR 0xD0,
     CHR 0xBF, CHR 0xD0, CHR 0xBE, CHR 0xD0, CHR 0xBF, CHR 0xD1, CHR 0x80, CHR 0xD0, CHR 0xBE,
     CHR 0xD0, CHR 0xB1, CHR 0xD1, CHR 0x83, CHR 0xD0, CHR 0xB9, CHR 0xD1, CHR 0x82, CHR 0xD0,
     CHR 0xB5] @ '' '' @ [CHR 0xD0, CHR 0xBF, CHR 0xD0, CHR 0xBE, CHR 0xD0, CHR 0xB7, CHR 0xD0,
     CHR 0xB6, CHR 0xD0, CHR 0xB5] @ ''.''"

definition get_keyboard :: "string \<Rightarrow> string list list" where
  \<comment> \<open>lines 337-344: the same keyboard for every language\<close>
  "get_keyboard lang =
     [[[CHR 0xF0, CHR 0x9F, CHR 0x9B, CHR 0xA1] @ '' '' @ [CHR 0xD0, CHR 0xA1, CHR 0xD1, CHR
       0x82, CHR 0xD1, CHR 0x80, CHR 0xD0, CHR 0xB0, CHR 0xD1, CHR 0x85, CHR 0xD0, CHR 0xBE, CHR
       0xD0, CHR 0xB2, CHR 0xD0, CHR 0xBA, CHR 0xD0, CHR 0xB0],
       [CHR 0xF0, CHR 0x9F, CHR 0x8C, CHR 0x90] @ '' '' @ [CHR 0xD0, CHR 0x9F, CHR 0xD0, CHR
       0xB5, CHR 0xD1, CHR 0x80, CHR 0xD0, CHR 0xB5, CHR 0xD0, CHR 0xB2, CHR 0xD0, CHR 0xBE, CHR
       0xD0, CHR 0xB4, CHR 0xD1, CHR 0x8B]],
      [[CHR 0xF0, CHR 0x9F, CHR 0x8D, CHR 0xBD] @ '' '' @ [CHR 0xD0, CHR 0xA0, CHR 0xD0, CHR
       0xB5, CHR 0xD1, CHR 0x81, CHR 0xD1, CHR 0x82, CHR 0xD0, CHR 0xBE, CHR 0xD1, CHR 0x80, CHR
       0xD0, CHR 0xB0, CHR 0xD0, CHR 0xBD, CHR 0xD1, CHR 0x8B],
       [CHR 0xE2, CHR 0x9C, CHR 0x88, CHR 0xEF, CHR 0xB8, CHR 0x8F] @ '' '' @ [CHR 0xD0, CHR
       0x90, CHR 0xD0, CHR 0xB2, CHR 0xD0, CHR 0xB8, CHR 0xD0, CHR 0xB0, CHR 0xD0, CHR 0xB1, CHR
       0xD0, CHR 0xB8, CHR 0xD0, CHR 0xBB, CHR 0xD0, CHR 0xB5, CHR 0xD1, CHR 0x82, CHR 0xD1, CHR
       0x8B]],
      [[CHR 0xF0, CHR 0x9F, CHR 0x8F, CHR 0xA8] @ '' '' @ [CHR 0xD0, CHR 0x9E, CHR 0xD1, CHR
       0x82, CHR 0xD0, CHR 0xB5, CHR 0xD0, CHR 0xBB, CHR 0xD0, CHR 0xB8],
       [CHR 0xF0, CHR 0x9F, CHR 0x94, CHR 0x8E] @ '' '' @ [CHR 0xD0, CHR 0x94, CHR 0xD1, CHR
       0x80, CHR 0xD1, CHR 0x83, CHR 0xD0, CHR 0xB3, CHR 0xD0, CHR 0xBE, CHR 0xD0, CHR 0xB5]]]"

definition send ::
  "inputs \<Rightarrow> site \<Rightarrow> int \<Rightarrow> string \<Rightarrow> string option \<Rightarrow> string list list option \<Rightarrow> bot
     \<Rightarrow> (exn + unit) \<times> bot" where
  "send inp place m body pm markup b =
     (if faults inp place then (Inl TelegramError, b)
      else (Inr (), b\<lparr>outbox := outbox b @
              [\<lparr>in_reply_to = m, content = body, parse_mode = pm, reply_markup = markup\<rparr>]\<rparr>))"

definition reply_text ::
  "inputs \<Rightarrow> site \<Rightarrow> int option \<Rightarrow> string \<Rightarrow> string option \<Rightarrow> string list list option \<Rightarrow> bot
     \<Rightarrow> (exn + unit) \<times> bot" where
  \<comment> \<open>\<open>m.reply_text(...)\<close> where \<open>m\<close> may be \<open>None\<close>\<close>
  "reply_text inp place m body pm markup b =
     (case m of
        None \<Rightarrow> (Inl AttributeError, b)
      | Some mid \<Rightarrow> send inp place mid body pm markup b)"

definition or_default :: "string option \<Rightarrow> string \<Rightarrow> string" where
  \<comment> \<open>Python's \<open>x or d\<close> for an optional text: \<open>None\<close> and the empty text give \<open>d\<close>\<close>
  "or_default x d = (case x of None \<Rightarrow> d | Some s \<Rightarrow> if s = [] then d else s)"

definition fetch_or_create_user :: "inputs \<Rightarrow> TgUser \<Rightarrow> bot \<Rightarrow> (exn + user_object) \<times> bot" where
  \<comment> \<open>lines 314-320. A \<open>User\<close> object is true, so \<open>not user\<close> holds for \<open>None\<close> only.\<close>
  "fetch_or_create_user inp eu b =
     (if faults inp AtGetUser then (Inl DatabaseError, b)
      else case get_user (users b) (user_id eu) of
             Some user \<Rightarrow> (Inr user, b)
           | None \<Rightarrow>
               (if faults inp AtCreateUser then (Inl DatabaseError, b)
                else case create_user (users b) (user_id eu)
                            (or_default (language_code eu) ''en'')
                            (utc_created inp) (utc_active inp) of
                       Inl e \<Rightarrow> (Inl e, b)
                     | Inr (user, tbl) \<Rightarrow> (Inr user, b\<lparr>users := tbl\<rparr>)))"

definition start_try :: "inputs \<Rightarrow> Update \<Rightarrow> bot \<Rightarrow> (exn + int) \<times> bot" where
  \<comment> \<open>lines 302-330, the body of the \<open>try\<close>. Line 323 reads \<open>user.language\<close>, and
      line 327 reads it again for the keyboard. Line 330 returns \<open>SELECTING_SERVICE\<close>, a
      name that the file binds nowhere: evaluating it raises \<open>NameError\<close>.\<close>
  "start_try inp update b =
     (case effective_user update of
        None \<Rightarrow> (Inl AttributeError, b)
      | Some eu \<Rightarrow>
          (if faults inp AtRedis then (Inl RedisError, b)
           else case check_rate_limit (rate_limit b) (redis_store b) (current inp) (user_id eu) of
             (allowed, r') \<Rightarrow>
               (let b1 = b\<lparr>redis_store := r'\<rparr> in
                if \<not> allowed then
                  (case reply_text inp AtReply (message update) rate_limit_notice None None b1 of
                     (Inl e, b2) \<Rightarrow> (Inl e, b2)
                   | (Inr u, b2) \<Rightarrow> (Inr END, b2))
                else
                  (let b2 = b1\<lparr>analytics := (analytics b1)\<lparr>command_counter :=
                               inc (command_counter (analytics b1)) [''start'']\<rparr>\<rparr>
                   in case fetch_or_create_user inp eu b2 of
                        (Inl e, b3) \<Rightarrow> (Inl e, b3)
                      | (Inr user, b3) \<Rightarrow>
                          (case read_language user of
                             Inl e \<Rightarrow> (Inl e, b3)
                           | Inr lang \<Rightarrow>
                               (case get_text (translation_table b3) ''welcome'' lang of
                                  Inl e \<Rightarrow> (Inl e, b3)
                                | Inr welcome_text \<Rightarrow>
                                    (case read_language user of
                                       Inl e \<Rightarrow> (Inl e, b3)
                                     | Inr lang' \<Rightarrow>
                                         (case reply_text inp AtReply (message update)
                                                 welcome_text (Some MARKDOWN)
                                                 (Some (get_keyboard lang')) b3 of
                                            (Inl e, b4) \<Rightarrow> (Inl e, b4)
                                          | (Inr u, b4) \<Rightarrow> (Inl NameError, b4)))))))))"

definition handle_error :: "inputs \<Rightarrow> Update \<Rightarrow> bot \<Rightarrow> (exn + unit) \<times> bot" where
  \<comment> \<open>lines 346-351\<close>
  "handle_error inp update b =
     (case effective_message update of
        None \<Rightarrow> (Inr (), b)
      | Some mid \<Rightarrow> send inp AtErrorReply mid error_msg None None b)"

definition start :: "inputs \<Rightarrow> Update \<Rightarrow> bot \<Rightarrow> (exn + int) \<times> bot" where
  \<comment> \<open>lines 299-335: \<open>except Exception\<close> logs, calls \<open>_handle_error\<close> and returns
      \<open>ConversationHandler.END\<close>; what \<open>_handle_error\<close> raises leaves \<open>start\<close>\<close>
  "start inp update b =
     (case start_try inp update b of
        (Inr v, b') \<Rightarrow> (Inr v, b')
      | (Inl e, b') \<Rightarrow>
          (case handle_error inp update b' of
             (Inl e', b'') \<Rightarrow> (Inl e', b'')
           | (Inr u, b'') \<Rightarrow> (Inr END, b'')))"

definition EnhancedTravelBot_init :: "int \<Rightarrow> bot" where
  \<comment> \<open>lines 291-297, on an empty Redis and an empty database; the argument is
      \<open>config.RATE_LIMIT\<close>\<close>
  "EnhancedTravelBot_init limit =
     \<lparr>rate_limit = limit, redis_store = (\<lambda>k. None), users = [],
      analytics = Analytics_init, translation_table = Translations_init, outbox = []\<rparr>"

subsection \<open>Notions used in the proofs about the rate limiter\<close>

text \<open>
  \<open>pruned r t u\<close> is the sorted set the pipeline leaves under the key of \<open>u\<close> at time
  \<open>t\<close>. \<open>rl_inv r cs\<close> relates a store to the calls \<open>cs\<close> made so far, whatever the time
  \<open>now\<close> of the next command (not before the calls made): members are distinct, each
  with itself as score, none negative, and those younger than 60 seconds are the seconds
  in which the identity called.
\<close>

definition pruned :: "redis \<Rightarrow> int \<Rightarrow> int \<Rightarrow> zset" where
  "pruned r t u = zremrangebyscore (zadd (zset_at r t (RateLimitKey u)) t t) 0 (t - 60)"

definition rl_inv :: "redis \<Rightarrow> (int \<times> int) list \<Rightarrow> bool" where
  "rl_inv r cs \<longleftrightarrow>
     (\<forall>u now. (\<forall>c \<in> set cs. fst c \<le> now) \<longrightarrow>
        distinct (map fst (zset_at r now (RateLimitKey u))) \<and>
        (\<forall>p \<in> set (zset_at r now (RateLimitKey u)). fst p = snd p \<and> 0 \<le> snd p) \<and>
        {p \<in> set (zset_at r now (RateLimitKey u)). now - 60 < snd p} =
          (\<lambda>s. (s, s)) ` {s. (s, u) \<in> set cs \<and> now - 60 < s})"


section \<open>Properties\<close>

subsection \<open>RateLimiter\<close>

lemma rl_inv_empty: "rl_inv (\<lambda>k. None) []"
  by (simp add: rl_inv_def zset_at_def)

lemma rate_pipeline_pruned:
  "rate_pipeline r t u =
     ((length (zadd (zset_at r t (RateLimitKey u)) t t) - length (zset_at r t (RateLimitKey u)),
       length (zadd (zset_at r t (RateLimitKey u)) t t) - length (pruned r t u),
       length (pruned r t u), pruned r t u \<noteq> []),
      (if pruned r t u = [] then r(RateLimitKey u := None)
       else r(RateLimitKey u \<mapsto> \<lparr>members = pruned r t u, deadline = Some (t + 60)\<rparr>)))"
  by (simp add: rate_pipeline_def pruned_def Let_def zcard_def)

lemma pruned_props:
  assumes inv: "rl_inv r cs" and le: "\<forall>c \<in> set cs. fst c \<le> t" and t0: "0 \<le> t"
  shows "distinct (map fst (pruned r t u))"
    and "\<forall>p \<in> set (pruned r t u). fst p = snd p \<and> 0 \<le> snd p \<and> t - 60 < snd p"
    and "set (pruned r t u) = (\<lambda>s. (s, s)) ` {s. (s, u) \<in> set (cs @ [(t, u)]) \<and> t - 60 < s}"
proof -
  let ?z = "zset_at r t (RateLimitKey u)"
  from inv le have d: "distinct (map fst ?z)"
    and m: "\<forall>p \<in> set ?z. fst p = snd p \<and> 0 \<le> snd p"
    and w: "{p \<in> set ?z. t - 60 < snd p} = (\<lambda>s. (s, s)) ` {s. (s, u) \<in> set cs \<and> t - 60 < s}"
    unfolding rl_inv_def by blast+
  show "distinct (map fst (pruned r t u))"
    using d m by (auto simp: pruned_def zadd_def zremrangebyscore_def distinct_map_filter)
  show "\<forall>p \<in> set (pruned r t u). fst p = snd p \<and> 0 \<le> snd p \<and> t - 60 < snd p"
    using m t0 by (auto simp: pruned_def zadd_def zremrangebyscore_def)
  have "set (pruned r t u) = insert (t, t) {p \<in> set ?z. t - 60 < snd p}"
    using m t0 by (auto simp: pruned_def zadd_def zremrangebyscore_def)
  also have "\<dots> = (\<lambda>s. (s, s)) ` {s. (s, u) \<in> set (cs @ [(t, u)]) \<and> t - 60 < s}"
    unfolding w by auto
  finally show "set (pruned r t u) = (\<lambda>s. (s, s)) ` {s. (s, u) \<in> set (cs @ [(t, u)]) \<and> t - 60 < s}" .
qed

lemma pruned_nonempty: "pruned r t u \<noteq> []"
proof -
  have "(t, t) \<in> set (pruned r t u)"
    by (simp add: pruned_def zadd_def zremrangebyscore_def)
  then show ?thesis by auto
qed

lemma pruned_length:
  assumes inv: "rl_inv r cs" and le: "\<forall>c \<in> set cs. fst c \<le> t" and t0: "0 \<le> t"
  shows "length (pruned r t u) = card {s. (s, u) \<in> set (cs @ [(t, u)]) \<and> t - 60 < s}"
proof -
  have d: "distinct (pruned r t u)"
    using pruned_props(1)[OF assms] by (rule distinct_map[THEN iffD1, THEN conjunct1])
  have "length (pruned r t u) = card (set (pruned r t u))"
    using d by (simp add: distinct_card)
  also have "\<dots> = card ((\<lambda>s. (s, s)) ` {s. (s, u) \<in> set (cs @ [(t, u)]) \<and> t - 60 < s})"
    by (simp only: pruned_props(3)[OF assms])
  also have "\<dots> = card {s. (s, u) \<in> set (cs @ [(t, u)]) \<and> t - 60 < s}"
    by (rule card_image) (simp add: inj_on_def)
  finally show ?thesis .
qed

lemma rl_inv_step:
  assumes inv: "rl_inv r cs" and le: "\<forall>c \<in> set cs. fst c \<le> t" and t0: "0 \<le> t"
  shows "rl_inv (snd (rate_pipeline r t u)) (cs @ [(t, u)])"
  unfolding rl_inv_def
proof (intro allI impI)
  fix v :: int and now :: int
  assume b: "\<forall>c \<in> set (cs @ [(t, u)]). fst c \<le> now"
  then have tn: "t \<le> now" and le': "\<forall>c \<in> set cs. fst c \<le> now" by auto
  let ?r' = "snd (rate_pipeline r t u)"
  let ?P = "\<lambda>z cs'. distinct (map fst z) \<and> (\<forall>p \<in> set z. fst p = snd p \<and> 0 \<le> snd p) \<and>
        {p \<in> set z. now - 60 < snd p} = (\<lambda>s. (s, s)) ` {s. (s, v) \<in> set cs' \<and> now - 60 < s}"
  show "?P (zset_at ?r' now (RateLimitKey v)) (cs @ [(t, u)])"
  proof (cases "v = u")
    case False
    then have "zset_at ?r' now (RateLimitKey v) = zset_at r now (RateLimitKey v)"
      by (simp add: rate_pipeline_pruned zset_at_def)
    moreover have "?P (zset_at r now (RateLimitKey v)) cs"
      using inv le' unfolding rl_inv_def by blast
    ultimately show ?thesis using False by simp
  next
    case True
    note p = pruned_props[OF inv le t0, of u]
    show ?thesis
    proof (cases "t + 60 \<le> now")
      case exp: True
      then have z: "zset_at ?r' now (RateLimitKey v) = []"
        using True by (simp add: rate_pipeline_pruned zset_at_def pruned_nonempty)
      have "{s. (s, v) \<in> set (cs @ [(t, u)]) \<and> now - 60 < s} = {}"
        using le exp by fastforce
      then show ?thesis unfolding z by simp
    next
      case nexp: False
      then have z: "zset_at ?r' now (RateLimitKey v) = pruned r t u"
        using True by (simp add: rate_pipeline_pruned zset_at_def pruned_nonempty)
      have "{p \<in> set (pruned r t u). now - 60 < snd p} =
            (\<lambda>s. (s, s)) ` {s. (s, v) \<in> set (cs @ [(t, u)]) \<and> now - 60 < s}"
        unfolding p(3) using tn True by auto
      then show ?thesis unfolding z using p(1) p(2) by auto
    qed
  qed
qed


text \<open>
  The model lets a key expire at the whole second \<open>current + 60\<close>, where Redis counts
  60 seconds from the moment within the second at which \<open>EXPIRE\<close> ran. The difference
  cannot be seen: every score stored under a key is at most its deadline minus 60, and a
  pipeline that runs at or after the deadline leaves the same set whether it still finds
  such a key or not.
\<close>

lemma pruned_scores_le:
  assumes inv: "rl_inv r cs" and le: "\<forall>c \<in> set cs. fst c \<le> t" and t0: "0 \<le> t"
  shows "list_all (\<lambda>p. 0 \<le> snd p \<and> snd p \<le> (t + 60) - 60) (pruned r t u)"
proof -
  have "snd p \<le> t" if "p \<in> set (pruned r t u)" for p
    using that le unfolding pruned_props(3)[OF assms] by auto
  then show ?thesis
    using pruned_props(2)[OF assms, of u] by (auto simp: list_all_iff)
qed

lemma expired_key_as_if_present:
  assumes "list_all (\<lambda>p. 0 \<le> snd p \<and> snd p \<le> d - 60) z" and "d \<le> now"
  shows "zremrangebyscore (zadd z now now) 0 (now - 60) =
         zremrangebyscore (zadd [] now now) 0 (now - 60)"
  using assms
  by (auto simp: zadd_def zremrangebyscore_def list_all_iff filter_empty_conv)

lemma check_all_length: "length (fst (check_all limit r cs)) = length cs"
  by (induction cs arbitrary: r) (auto simp: split_beta)

lemma check_rate_limit_snd: "snd (check_rate_limit limit r t u) = snd (rate_pipeline r t u)"
  by (simp add: check_rate_limit_def split: prod.splits)

lemma check_rate_limit_fst:
  "fst (check_rate_limit limit r t u) = (int (length (pruned r t u)) \<le> limit)"
  by (simp add: check_rate_limit_def rate_pipeline_pruned)

lemma check_all_inv:
  assumes "rl_inv r pre" and "sorted (map fst (pre @ cs))" and "list_all (\<lambda>c. 0 \<le> fst c) cs"
  shows "rl_inv (snd (check_all limit r cs)) (pre @ cs)"
  using assms
proof (induction cs arbitrary: r pre)
  case Nil
  then show ?case by simp
next
  case (Cons c cs)
  obtain t u where c: "c = (t, u)" by (cases c)
  from Cons.prems(2) have le: "\<forall>d \<in> set pre. fst d \<le> t"
    by (auto simp: c sorted_append)
  from Cons.prems(3) have t0: "0 \<le> t" by (simp add: c)
  have step: "rl_inv (snd (check_rate_limit limit r t u)) (pre @ [(t, u)])"
    unfolding check_rate_limit_snd by (rule rl_inv_step[OF Cons.prems(1) le t0])
  have "rl_inv (snd (check_all limit (snd (check_rate_limit limit r t u)) cs)) ((pre @ [(t, u)]) @ cs)"
    using Cons.prems(2,3) by (intro Cons.IH[OF step]) (simp_all add: c)
  then show ?case by (simp add: c split_beta)
qed

lemma window_card_le_60:
  assumes "\<forall>c \<in> set cs. fst c \<le> (t::int)"
  shows "card {s. (s, u) \<in> set (cs @ [(t, u)]) \<and> t - 60 < s} \<le> 60"
proof -
  have "{s. (s, u) \<in> set (cs @ [(t, u)]) \<and> t - 60 < s} \<subseteq> {t - 59 .. t}"
    using assms by fastforce
  then have "card {s. (s, u) \<in> set (cs @ [(t, u)]) \<and> t - 60 < s} \<le> card {t - 59 .. t}"
    by (intro card_mono) simp_all
  then show ?thesis by simp
qed

lemma check_never_rejects:
  assumes "rl_inv r cs" and "\<forall>c \<in> set cs. fst c \<le> t" and "0 \<le> t" and "60 \<le> limit"
  shows "fst (check_rate_limit limit r t u)"
  using window_card_le_60[OF assms(2), of u] assms(4)
  by (simp add: check_rate_limit_fst pruned_length[OF assms(1-3)])

lemma check_all_never_rejects:
  assumes "rl_inv r pre" and "sorted (map fst (pre @ cs))" and "list_all (\<lambda>c. 0 \<le> fst c) cs"
    and "60 \<le> limit"
  shows "fst (check_all limit r cs) = replicate (length cs) True"
  using assms(1-3)
proof (induction cs arbitrary: r pre)
  case Nil
  then show ?case by simp
next
  case (Cons c cs)
  obtain t u where c: "c = (t, u)" by (cases c)
  from Cons.prems(2) have le: "\<forall>d \<in> set pre. fst d \<le> t"
    by (auto simp: c sorted_append)
  from Cons.prems(3) have t0: "0 \<le> t" by (simp add: c)
  have step: "rl_inv (snd (check_rate_limit limit r t u)) (pre @ [(t, u)])"
    unfolding check_rate_limit_snd by (rule rl_inv_step[OF Cons.prems(1) le t0])
  have ok: "fst (check_rate_limit limit r t u)"
    by (rule check_never_rejects[OF Cons.prems(1) le t0 assms(4)])
  have "fst (check_all limit (snd (check_rate_limit limit r t u)) cs) = replicate (length cs) True"
    using Cons.prems(2,3) by (intro Cons.IH[OF step]) (simp_all add: c)
  with ok show ?case by (simp add: c split_beta)
qed

text \<open>
  Claim C9. Let one identity \<open>u\<close> call at time \<open>t\<close>, after any calls \<open>cs\<close> of any
  identities made in order of time at non-negative times up to \<open>t\<close>, on a store that
  was empty at first. The cardinality the pipeline then reads is the number of distinct
  seconds later than \<open>t - 60\<close> in which \<open>u\<close> called, this call included, however many
  calls fell into each second; the set stored for \<open>u\<close> has these seconds as its members,
  each once with itself as score; and the call is accepted exactly when that number is
  at most the limit.
\<close>

theorem rate_window_one_entry_per_second:
  assumes "sorted (map fst cs)" and "list_all (\<lambda>c. 0 \<le> fst c \<and> fst c \<le> t) cs" and "0 \<le> t"
  shows "(case rate_pipeline (snd (check_all limit (\<lambda>k. None) cs)) t u of
           ((added, removed, n, expiring), r') \<Rightarrow>
              n = card {s. (s, u) \<in> set (cs @ [(t, u)]) \<and> t - 60 < s} \<and>
              distinct (map fst (zset_at r' t (RateLimitKey u))) \<and>
              set (zset_at r' t (RateLimitKey u)) =
                (\<lambda>s. (s, s)) ` {s. (s, u) \<in> set (cs @ [(t, u)]) \<and> t - 60 < s}) \<and>
         fst (check_rate_limit limit (snd (check_all limit (\<lambda>k. None) cs)) t u) =
           (int (card {s. (s, u) \<in> set (cs @ [(t, u)]) \<and> t - 60 < s}) \<le> limit)"
proof -
  let ?r = "snd (check_all limit (\<lambda>k. None) cs)"
  have nn: "list_all (\<lambda>c. 0 \<le> fst c) cs" and le: "\<forall>c \<in> set cs. fst c \<le> t"
    using assms(2) by (auto simp: list_all_iff)
  have inv: "rl_inv ?r cs"
    using check_all_inv[OF rl_inv_empty _ nn, of limit] assms(1) by simp
  note p = pruned_props[OF inv le assms(3), of u]
  note l = pruned_length[OF inv le assms(3), of u]
  have z: "zset_at (snd (rate_pipeline ?r t u)) t (RateLimitKey u) = pruned ?r t u"
    by (simp add: rate_pipeline_pruned zset_at_def pruned_nonempty)
  have "fst (snd (snd (fst (rate_pipeline ?r t u)))) = card {s. (s, u) \<in> set (cs @ [(t, u)]) \<and> t - 60 < s}"
    using l by (simp add: rate_pipeline_pruned)
  moreover have "distinct (map fst (zset_at (snd (rate_pipeline ?r t u)) t (RateLimitKey u)))"
    unfolding z by (rule p(1))
  moreover have "set (zset_at (snd (rate_pipeline ?r t u)) t (RateLimitKey u)) =
      (\<lambda>s. (s, s)) ` {s. (s, u) \<in> set (cs @ [(t, u)]) \<and> t - 60 < s}"
    unfolding z by (rule p(3))
  moreover have "fst (check_rate_limit limit ?r t u) =
           (int (card {s. (s, u) \<in> set (cs @ [(t, u)]) \<and> t - 60 < s}) \<le> limit)"
    by (simp add: check_rate_limit_fst l)
  ultimately show ?thesis by (cases "rate_pipeline ?r t u") auto
qed


text \<open>
  Six calls of identity 7 and one of identity 9 within the seconds 100 and 101: the
  cardinality read by the last call is 2, and with limit 1 that call is rejected.
\<close>

theorem rate_window_one_entry_per_second_witness:
  "sorted (map fst [(100 :: int, 7 :: int), (100, 7), (100, 7), (100, 9), (101, 7)]) \<and>
   list_all (\<lambda>c. 0 \<le> fst c \<and> fst c \<le> 101)
     [(100 :: int, 7 :: int), (100, 7), (100, 7), (100, 9), (101, 7)] \<and>
   fst (snd (snd (fst (rate_pipeline
     (snd (check_all 60 (\<lambda>k. None) [(100, 7), (100, 7), (100, 7), (100, 9), (101, 7)])) 101 7)))) = 2 \<and>
   fst (check_rate_limit 1
     (snd (check_all 1 (\<lambda>k. None) [(100, 7), (100, 7), (100, 7), (100, 9), (101, 7)])) 101 7) = False"
proof -
  let ?cs = "[(100 :: int, 7 :: int), (100, 7), (100, 7), (100, 9), (101, 7)]"
  have h1: "sorted (map fst ?cs)" by simp
  have h2: "list_all (\<lambda>c. 0 \<le> fst c \<and> fst c \<le> (101 :: int)) ?cs" by simp
  have h3: "(0 :: int) \<le> 101" by simp
  have "{s. (s, 7) \<in> set (?cs @ [(101, 7)]) \<and> 101 - 60 < s} = {100, 101 :: int}"
    by auto
  then have c: "card {s. (s, 7) \<in> set (?cs @ [(101, 7)]) \<and> 101 - 60 < s} = 2"
    by simp
  note w60 = rate_window_one_entry_per_second[OF h1 h2 h3, where limit = 60 and u = 7,
      unfolded c split_beta]
  note w1 = rate_window_one_entry_per_second[OF h1 h2 h3, where limit = 1 and u = 7,
      unfolded c split_beta]
  from w60 have n: "fst (snd (snd (fst (rate_pipeline (snd (check_all 60 (\<lambda>k. None) ?cs)) 101 7)))) = 2"
    by blast
  from w1 have b: "fst (check_rate_limit 1 (snd (check_all 1 (\<lambda>k. None) ?cs)) 101 7) = False"
    by simp
  from h1 h2 n b show ?thesis by blast
qed

lemma sorted_div7: "sorted (map (\<lambda>i. (t :: int) + int (i div 7)) [0..<n])"
  by (auto simp: sorted_iff_nth_mono div_le_mono)

text \<open>
  Claim C1, at the input of the specification's scenario 2: identity 42 calls 61 times
  within 9 seconds (seven calls a second), limit 60, store empty at first. The claim
  asks for a rejection of the 61st call; every one of the 61 calls is accepted.
\<close>

theorem sixty_one_calls_in_ten_seconds_all_accepted:
  "fst (check_all 60 (\<lambda>k. None) (map (\<lambda>i. (1700000000 + int (i div 7), 42)) [0..<61])) =
     replicate 61 True"
proof -
  let ?cs = "map (\<lambda>i. (1700000000 + int (i div 7), 42 :: int)) [0..<61]"
  have s: "sorted (map fst ([] @ ?cs))"
    using sorted_div7[of 1700000000 61] by (simp add: comp_def)
  have n: "list_all (\<lambda>c. 0 \<le> fst c) ?cs"
    by (simp add: list_all_iff)
  show ?thesis
    using check_all_never_rejects[OF rl_inv_empty s n, of 60] by simp
qed


subsection \<open>Config\<close>

lemma validate_iff:
  "validate env \<longleftrightarrow>
     truthy (env ''BOT_TOKEN'') \<and> truthy (env ''DATABASE_URL'') \<and> truthy (env ''REDIS_URL'') \<and>
     truthy (env ''PAYPAL_CLIENT_ID'') \<and> truthy (env ''STRIPE_SECRET_KEY'')"
  by (simp add: validate_def required_vars_def getenv_def)

text \<open>
  Claim C3, at an environment that sets the five variables \<open>validate\<close> reads and leaves
  \<open>PAYPAL_CLIENT_SECRET\<close> unset: the claim counts the PayPal client secret among the
  required values and asks for \<open>False\<close>; \<open>validate\<close> returns \<open>True\<close>.
\<close>

theorem validate_accepts_missing_paypal_secret:
  "validate (map_of [(''BOT_TOKEN'', ''123:abc''), (''DATABASE_URL'', ''sqlite://''),
                     (''REDIS_URL'', ''redis://localhost''), (''PAYPAL_CLIENT_ID'', ''client''),
                     (''STRIPE_SECRET_KEY'', ''sk_test'')]) \<and>
   getenv (map_of [(''BOT_TOKEN'', ''123:abc''), (''DATABASE_URL'', ''sqlite://''),
                   (''REDIS_URL'', ''redis://localhost''), (''PAYPAL_CLIENT_ID'', ''client''),
                   (''STRIPE_SECRET_KEY'', ''sk_test'')]) ''PAYPAL_CLIENT_SECRET'' = None"
  by (simp add: validate_iff truthy_def getenv_def)

subsection \<open>Translations\<close>

lemma get_text_general:
  assumes "map_of tr ''en'' = Some en" and "map_of en key = Some d"
  shows "get_text tr key lang =
     Inr (case map_of tr lang of
            None \<Rightarrow> d
          | Some t \<Rightarrow> (case map_of t key of None \<Rightarrow> d | Some v \<Rightarrow> v))"
  using assms by (simp add: get_text_def split: option.splits)

lemma get_text_missing:
  assumes "map_of tr ''en'' = Some en" and "map_of en key = None"
  shows "get_text tr key lang = Inl KeyError"
  using assms by (simp add: get_text_def)

lemma Translations_init_en: "map_of Translations_init ''en'' = Some translations_en"
  by (simp add: Translations_init_def)

lemma Translations_init_cases:
  "map_of Translations_init lang = None \<or>
   map_of Translations_init lang = Some translations_en \<or>
   map_of Translations_init lang = Some translations_ru \<or>
   map_of Translations_init lang = Some translations_es \<or>
   map_of Translations_init lang = Some translations_zh"
  by (simp add: Translations_init_def)

lemma nonempty_values:
  "list_all (\<lambda>p. snd p \<noteq> []) t \<Longrightarrow> map_of t key = Some v \<Longrightarrow> v \<noteq> []"
  by (auto simp: list_all_iff dest!: map_of_SomeD)

lemma nonempty_en: "list_all (\<lambda>p. snd p \<noteq> []) translations_en"
  by (simp add: translations_en_def)
lemma nonempty_ru: "list_all (\<lambda>p. snd p \<noteq> []) translations_ru"
  by (simp add: translations_ru_def)
lemma nonempty_es: "list_all (\<lambda>p. snd p \<noteq> []) translations_es"
  by (simp add: translations_es_def)
lemma nonempty_zh: "list_all (\<lambda>p. snd p \<noteq> []) translations_zh"
  by (simp add: translations_zh_def)

lemma Translations_init_nonempty:
  assumes "map_of Translations_init lang = Some t" and "map_of t key = Some v"
  shows "v \<noteq> []"
proof -
  from assms(1) Translations_init_cases[of lang]
  have "t = translations_en \<or> t = translations_ru \<or> t = translations_es \<or> t = translations_zh"
    by auto
  then have "list_all (\<lambda>p. snd p \<noteq> []) t"
    using nonempty_en nonempty_ru nonempty_es nonempty_zh by blast
  then show ?thesis using assms(2) by (rule nonempty_values)
qed

text \<open>
  Claim C6. For a key of the default (\<open>'en'\<close>) table and any language text, \<open>get_text\<close>
  returns a text that is not empty; when the language has no table, or its table lacks
  the key, the text is the default table's entry for the key. For a key that the default
  table lacks, \<open>get_text\<close> raises \<open>KeyError\<close>.
\<close>

theorem get_text_falls_back_to_default:
  "case map_of translations_en key of
     None \<Rightarrow> get_text Translations_init key lang = Inl KeyError
   | Some d \<Rightarrow>
       (\<exists>s. get_text Translations_init key lang = Inr s \<and> s \<noteq> [] \<and>
          (map_of Translations_init lang = None \<longrightarrow> s = d) \<and>
          (\<forall>t. map_of Translations_init lang = Some t \<and> map_of t key = None \<longrightarrow> s = d))"
proof (cases "map_of translations_en key")
  case None
  then show ?thesis
    using get_text_missing[OF Translations_init_en, of key lang] by simp
next
  case (Some d)
  have "\<exists>s. get_text Translations_init key lang = Inr s \<and> s \<noteq> [] \<and>
          (map_of Translations_init lang = None \<longrightarrow> s = d) \<and>
          (\<forall>t. map_of Translations_init lang = Some t \<and> map_of t key = None \<longrightarrow> s = d)"
  proof -
  let ?s = "case map_of Translations_init lang of
              None \<Rightarrow> d
            | Some t \<Rightarrow> (case map_of t key of None \<Rightarrow> d | Some v \<Rightarrow> v)"
  have g: "get_text Translations_init key lang = Inr ?s"
    by (rule get_text_general[OF Translations_init_en Some])
  have d: "d \<noteq> []" using nonempty_en Some by (rule nonempty_values)
  have ne: "?s \<noteq> []"
  proof (cases "map_of Translations_init lang")
    case None
    then show ?thesis using d by simp
  next
    case (Some t)
    show ?thesis
    proof (cases "map_of t key")
      case None
      with Some show ?thesis using d by simp
    next
      case (Some v)
      with \<open>map_of Translations_init lang = Some t\<close> have "v \<noteq> []"
        by (intro Translations_init_nonempty)
      with Some \<open>map_of Translations_init lang = Some t\<close> show ?thesis by simp
    qed
  qed
  have f1: "map_of Translations_init lang = None \<longrightarrow> ?s = d" by simp
  have f2: "\<forall>t. map_of Translations_init lang = Some t \<and> map_of t key = None \<longrightarrow> ?s = d" by simp
  show ?thesis by (intro exI[of _ ?s] conjI g ne f1 f2)
qed
  with Some show ?thesis by simp
qed

text \<open>
  The key \<open>welcome\<close> in the language \<open>de\<close>, which has no table: the English text.
\<close>

theorem get_text_falls_back_to_default_witness:
  "map_of translations_en ''welcome'' = Some ''Welcome to Travel Assistant!'' \<and>
   get_text Translations_init ''welcome'' ''de'' = Inr ''Welcome to Travel Assistant!''"
proof -
  have h: "map_of translations_en ''welcome'' = Some ''Welcome to Travel Assistant!''"
    by (simp add: translations_en_def)
  have u: "map_of Translations_init ''de'' = None"
    by (simp add: Translations_init_def)
  from get_text_falls_back_to_default[of "''welcome''" "''de''"] u h show ?thesis by auto
qed

subsection \<open>PaymentManager\<close>

text \<open>
  Claim C7. For a provider argument that is neither \<open>PaymentProvider.PAYPAL\<close> nor
  \<open>PaymentProvider.STRIPE\<close>, \<open>create_payment\<close> returns \<open>None\<close> and leaves the world as
  it was, the list of vendor calls included, whatever the vendors would have answered.
\<close>

theorem create_payment_unsupported_provider:
  assumes "provider \<noteq> Member PAYPAL" and "provider \<noteq> Member STRIPE"
  shows "create_payment v amount currency provider description w = (None, w)"
  using assms by (simp add: create_payment_def create_payment_try_def)

text \<open>
  The text \<open>"paypal"\<close> in place of the member: no call, although both vendors would
  have succeeded.
\<close>

theorem create_payment_unsupported_provider_witness:
  "NonMember ''paypal'' \<noteq> Member PAYPAL \<and> NonMember ''paypal'' \<noteq> Member STRIPE \<and>
   create_payment \<lparr>paypal_resp = PayPalTrue ''PAY-1'' [''https://paypal.example/approve''],
                    stripe_resp = StripeSession ''cs_1'' ''https://stripe.example/pay''\<rparr>
     10 ''USD'' (NonMember ''paypal'') ''Hotels'' \<lparr>vendor_calls = [], transactions = []\<rparr> =
   (None, \<lparr>vendor_calls = [], transactions = []\<rparr>)"
  using create_payment_unsupported_provider[of "NonMember ''paypal''"
      "\<lparr>paypal_resp = PayPalTrue ''PAY-1'' [''https://paypal.example/approve''],
        stripe_resp = StripeSession ''cs_1'' ''https://stripe.example/pay''\<rparr>"
      10 "''USD''" "''Hotels''" "\<lparr>vendor_calls = [], transactions = []\<rparr>"]
  by simp

text \<open>
  Claim C10. \<open>PaymentProvider.CRYPTO\<close> is a member of the enumeration and has no
  branch: \<open>create_payment\<close> returns \<open>None\<close> and calls neither vendor, for every amount,
  currency and description.
\<close>

theorem create_payment_crypto:
  "create_payment v amount currency (Member CRYPTO) description w = (None, w)"
  by (simp add: create_payment_def create_payment_try_def)

text \<open>
  Claim C8. For PayPal when the call raises or \<open>create()\<close> answers false, and for
  Stripe when the call raises, \<open>create_payment\<close> returns \<open>None\<close>, has made exactly one
  vendor call (no retry), and leaves the transactions as they were: none is created and
  none changes its status.
\<close>

theorem create_payment_vendor_failure:
  assumes "provider = Member PAYPAL \<and> (paypal_resp v = PayPalRaises \<or> paypal_resp v = PayPalFalse) \<or>
           provider = Member STRIPE \<and> stripe_resp v = StripeRaises"
  shows "fst (create_payment v amount currency provider description w) = None \<and>
         transactions (snd (create_payment v amount currency provider description w)) = transactions w \<and>
         vendor_calls (snd (create_payment v amount currency provider description w)) =
           vendor_calls w @
             [if provider = Member PAYPAL then PayPalPaymentCreate amount currency description
              else StripeSessionCreate amount currency description]"
  using assms
  by (auto simp: create_payment_def create_payment_try_def create_paypal_payment_def
        create_stripe_payment_def Let_def)

text \<open>
  Both vendors raising, on a world without calls or transactions.
\<close>

theorem create_payment_vendor_failure_witness:
  "paypal_resp \<lparr>paypal_resp = PayPalRaises, stripe_resp = StripeRaises\<rparr> = PayPalRaises \<and>
   stripe_resp \<lparr>paypal_resp = PayPalRaises, stripe_resp = StripeRaises\<rparr> = StripeRaises \<and>
   create_payment \<lparr>paypal_resp = PayPalRaises, stripe_resp = StripeRaises\<rparr>
     10 ''USD'' (Member PAYPAL) ''Hotels'' \<lparr>vendor_calls = [], transactions = []\<rparr> =
   (None, \<lparr>vendor_calls = [PayPalPaymentCreate 10 ''USD'' ''Hotels''], transactions = []\<rparr>) \<and>
   create_payment \<lparr>paypal_resp = PayPalRaises, stripe_resp = StripeRaises\<rparr>
     10 ''USD'' (Member STRIPE) ''Hotels'' \<lparr>vendor_calls = [], transactions = []\<rparr> =
   (None, \<lparr>vendor_calls = [StripeSessionCreate 10 ''USD'' ''Hotels''], transactions = []\<rparr>)"
proof -
  let ?v = "\<lparr>paypal_resp = PayPalRaises, stripe_resp = StripeRaises\<rparr>"
  let ?w = "\<lparr>vendor_calls = [], transactions = []\<rparr>"
  have p: "Member PAYPAL = Member PAYPAL \<and> (paypal_resp ?v = PayPalRaises \<or> paypal_resp ?v = PayPalFalse) \<or>
           Member PAYPAL = Member STRIPE \<and> stripe_resp ?v = StripeRaises" by simp
  have s: "Member STRIPE = Member PAYPAL \<and> (paypal_resp ?v = PayPalRaises \<or> paypal_resp ?v = PayPalFalse) \<or>
           Member STRIPE = Member STRIPE \<and> stripe_resp ?v = StripeRaises" by simp
  note a = create_payment_vendor_failure[OF p, of 10 "''USD''" "''Hotels''" ?w]
  note b = create_payment_vendor_failure[OF s, of 10 "''USD''" "''Hotels''" ?w]
  have e: "\<And>x :: payment_ref option \<times> pay_world.
      fst x = None \<Longrightarrow> transactions (snd x) = [] \<Longrightarrow> vendor_calls (snd x) = cs \<Longrightarrow>
      x = (None, \<lparr>vendor_calls = cs, transactions = []\<rparr>)" for cs
    by (auto simp: prod_eq_iff)
  from a b show ?thesis by (auto intro!: e)
qed

subsection \<open>DatabaseManager and the fetch-or-create path\<close>

lemma get_user_None_iff: "get_user tbl tid = None \<longleftrightarrow> \<not> list_ex (\<lambda>row. telegram_id row = tid) tbl"
  by (auto simp: get_user_def find_None_iff list_ex_iff)

lemma get_user_snoc:
  "get_user tbl tid = None \<Longrightarrow> telegram_id row = tid \<Longrightarrow>
     get_user (tbl @ [row]) tid = Some (Loaded row)"
  by (induction tbl) (auto simp: get_user_def)

lemma create_user_new:
  assumes "get_user tbl tid = None"
  shows "create_user tbl tid lang utc1 utc2 =
     Inr (Expired,
          tbl @ [\<lparr>telegram_id = tid, language = lang, created_at = utc1, last_active = utc2\<rparr>])"
  using assms by (simp add: create_user_def get_user_None_iff Let_def)

text \<open>
  Claim C2, as the code has it. For an identity with no row yet, when the database
  answers, the fetch-or-create path of \<open>start\<close> returns without raising and has stored
  one new row, the profile of that identity: its language is the locale the update
  reports, whether supported or not, or \<open>en\<close> when the locale is absent or empty. A
  later \<open>get_user\<close> of the identity finds this profile. (Nothing is said of the object
  the path hands back.)
\<close>

theorem new_identity_language:
  assumes "get_user (users b) (user_id eu) = None"
    and "\<not> faults inp AtGetUser" and "\<not> faults inp AtCreateUser"
  shows "\<exists>obj b' row. fetch_or_create_user inp eu b = (Inr obj, b') \<and>
           users b' = users b @ [row] \<and>
           telegram_id row = user_id eu \<and>
           language row =
             (case language_code eu of
                None \<Rightarrow> ''en''
              | Some l \<Rightarrow> if l = [] then ''en'' else l) \<and>
           get_user (users b') (user_id eu) = Some (Loaded row)"
  using assms
  by (simp add: fetch_or_create_user_def create_user_new get_user_snoc or_default_def)

text \<open>
  Identity 42 on an empty database: locale \<open>ru\<close> stores \<open>ru\<close>, no locale stores \<open>en\<close>.
\<close>

theorem new_identity_language_witness:
  "get_user (users (EnhancedTravelBot_init 60)) (user_id \<lparr>user_id = 42, language_code = Some ''ru''\<rparr>) = None \<and>
   map language (users (snd (fetch_or_create_user
     \<lparr>faults = (\<lambda>s. False), current = 1700000000, utc_created = 1700000000, utc_active = 1700000001\<rparr>
     \<lparr>user_id = 42, language_code = Some ''ru''\<rparr> (EnhancedTravelBot_init 60)))) = [''ru''] \<and>
   map language (users (snd (fetch_or_create_user
     \<lparr>faults = (\<lambda>s. False), current = 1700000000, utc_created = 1700000000, utc_active = 1700000001\<rparr>
     \<lparr>user_id = 42, language_code = None\<rparr> (EnhancedTravelBot_init 60)))) = [''en'']"
proof -
  let ?inp = "\<lparr>faults = (\<lambda>s. False), current = 1700000000, utc_created = 1700000000, utc_active = 1700000001\<rparr>"
  let ?b = "EnhancedTravelBot_init 60"
  have h: "get_user (users ?b) 42 = None"
    by (simp add: EnhancedTravelBot_init_def get_user_def)
  have u: "users ?b = []"
    by (simp add: EnhancedTravelBot_init_def)
  have f: "\<not> faults ?inp AtGetUser" "\<not> faults ?inp AtCreateUser" by simp_all
  from new_identity_language[of ?b "\<lparr>user_id = 42, language_code = Some ''ru''\<rparr>" ?inp]
       new_identity_language[of ?b "\<lparr>user_id = 42, language_code = None\<rparr>" ?inp] h f u
  show ?thesis by auto
qed

text \<open>
  Claim C2 as stated asks for \<open>en\<close> at every unsupported locale. Identity 42 with the
  locale \<open>de\<close>, which is not in \<open>SUPPORTED_LANGUAGES\<close>, is stored with the language
  \<open>de\<close>.
\<close>

theorem unsupported_locale_is_stored:
  "map language (users (snd (fetch_or_create_user
     \<lparr>faults = (\<lambda>s. False), current = 1700000000, utc_created = 1700000000, utc_active = 1700000001\<rparr>
     \<lparr>user_id = 42, language_code = Some ''de''\<rparr> (EnhancedTravelBot_init 60)))) = [''de''] \<and>
   ''de'' \<notin> set SUPPORTED_LANGUAGES \<and> ''de'' \<noteq> ''en''"
  by (simp add: fetch_or_create_user_def EnhancedTravelBot_init_def get_user_def create_user_def
        or_default_def SUPPORTED_LANGUAGES_def Let_def)

subsection \<open>EnhancedTravelBot.start\<close>

lemma send_ok:
  "\<not> faults inp place \<Longrightarrow>
   send inp place m body pm markup b =
     (Inr (), b\<lparr>outbox := outbox b @
        [\<lparr>in_reply_to = m, content = body, parse_mode = pm, reply_markup = markup\<rparr>]\<rparr>)"
  by (simp add: send_def)

lemma send_analytics: "analytics (snd (send inp place m body pm markup b)) = analytics b"
  by (simp add: send_def)

lemma reply_text_analytics: "analytics (snd (reply_text inp place m body pm markup b)) = analytics b"
  by (simp add: reply_text_def send_analytics split: option.splits)

lemma fetch_or_create_user_analytics: "analytics (snd (fetch_or_create_user inp eu b)) = analytics b"
  by (simp add: fetch_or_create_user_def split: option.splits sum.splits prod.splits)

lemma handle_error_analytics: "analytics (snd (handle_error inp upd b)) = analytics b"
  by (simp add: handle_error_def send_analytics split: option.splits)

lemma start_analytics: "analytics (snd (start inp upd b)) = analytics (snd (start_try inp upd b))"
proof (cases "start_try inp upd b")
  case (Pair res b')
  show ?thesis
  proof (cases res)
    case (Inl e)
    obtain res' b'' where h: "handle_error inp upd b' = (res', b'')"
      by (cases "handle_error inp upd b'")
    with handle_error_analytics[of inp upd b'] have "analytics b'' = analytics b'" by simp
    with Pair Inl h show ?thesis
      by (simp add: start_def split: sum.splits)
  next
    case (Inr v)
    with Pair show ?thesis by (simp add: start_def)
  qed
qed

lemma start_try_analytics:
  assumes u: "effective_user upd = Some eu" and f: "\<not> faults inp AtRedis"
    and a: "fst (check_rate_limit (rate_limit b) (redis_store b) (current inp) (user_id eu))"
  shows "analytics (snd (start_try inp upd b)) =
           (analytics b)\<lparr>command_counter := inc (command_counter (analytics b)) [''start'']\<rparr>"
proof -
  obtain r' where c: "check_rate_limit (rate_limit b) (redis_store b) (current inp) (user_id eu) = (True, r')"
    using a by (cases "check_rate_limit (rate_limit b) (redis_store b) (current inp) (user_id eu)") auto
  let ?b2 = "b\<lparr>redis_store := r',
               analytics := (analytics b)\<lparr>command_counter :=
                 inc (command_counter (analytics b)) [''start'']\<rparr>\<rparr>"
  obtain res b3 where fc: "fetch_or_create_user inp eu ?b2 = (res, b3)"
    by (cases "fetch_or_create_user inp eu ?b2")
  have a3: "analytics b3 = analytics ?b2"
    using fetch_or_create_user_analytics[of inp eu ?b2] fc by simp
  have r: "analytics b4 = analytics ?b2"
    if "reply_text inp AtReply (message upd) body pm markup b3 = (res', b4)"
    for body pm markup res' b4
    using reply_text_analytics[of inp AtReply "message upd" body pm markup b3] a3 that by simp
  have "analytics (snd (start_try inp upd b)) = analytics ?b2"
    using u f c fc a3
    by (auto simp: start_try_def split: sum.splits prod.splits dest: r)
  then show ?thesis by simp
qed

lemmas bot_defs = start_def start_try_def handle_error_def send_def reply_text_def
  fetch_or_create_user_def create_user_def get_user_def read_language_def or_default_def
  EnhancedTravelBot_init_def check_rate_limit_def rate_pipeline_def zset_at_def zadd_def
  zremrangebyscore_def zcard_def Let_def inc_def

text \<open>
  What \<open>start\<close> does when nothing outside the program fails. A known identity gets the
  welcome, then line 330 raises and the error text follows; a new identity gets the
  error text only, since its profile cannot be read at line 323. Both end in
  \<open>ConversationHandler.END\<close>.
\<close>

lemma start_known_identity:
  "fst (start
      \<lparr>faults = (\<lambda>s. False), current = 1700000000, utc_created = 1700000000,
        utc_active = 1700000001\<rparr>
      \<lparr>effective_user = Some \<lparr>user_id = 42, language_code = Some ''ru''\<rparr>,
        message = Some 1, effective_message = Some 1\<rparr>
      ((EnhancedTravelBot_init 60)\<lparr>users :=
         [\<lparr>telegram_id = 42, language = ''en'', created_at = 0, last_active = 0\<rparr>]\<rparr>)) = Inr END \<and>
   map content (outbox (snd (start
      \<lparr>faults = (\<lambda>s. False), current = 1700000000, utc_created = 1700000000,
        utc_active = 1700000001\<rparr>
      \<lparr>effective_user = Some \<lparr>user_id = 42, language_code = Some ''ru''\<rparr>,
        message = Some 1, effective_message = Some 1\<rparr>
      ((EnhancedTravelBot_init 60)\<lparr>users :=
         [\<lparr>telegram_id = 42, language = ''en'', created_at = 0, last_active = 0\<rparr>]\<rparr>)))) =
     [''Welcome to Travel Assistant!'', error_msg]"
proof -
  have g: "get_text Translations_init ''welcome'' ''en'' = Inr ''Welcome to Travel Assistant!''"
    by (simp add: get_text_def Translations_init_def translations_en_def)
  show ?thesis
    by (simp add: bot_defs g)
qed

lemma start_new_identity:
  "fst (start
      \<lparr>faults = (\<lambda>s. False), current = 1700000000, utc_created = 1700000000,
        utc_active = 1700000001\<rparr>
      \<lparr>effective_user = Some \<lparr>user_id = 42, language_code = Some ''ru''\<rparr>,
        message = Some 1, effective_message = Some 1\<rparr>
      (EnhancedTravelBot_init 60)) = Inr END \<and>
   map content (outbox (snd (start
      \<lparr>faults = (\<lambda>s. False), current = 1700000000, utc_created = 1700000000,
        utc_active = 1700000001\<rparr>
      \<lparr>effective_user = Some \<lparr>user_id = 42, language_code = Some ''ru''\<rparr>,
        message = Some 1, effective_message = Some 1\<rparr>
      (EnhancedTravelBot_init 60)))) = [error_msg]"
  by (simp add: bot_defs)

text \<open>
  Claim C5, as the code has it. The command counter is named \<open>bot_commands_total\<close>
  with the label \<open>command\<close>, the payment counter \<open>payments_total\<close> with the labels
  \<open>provider\<close> and \<open>status\<close>. When an update has a sender, Redis answers and the rate
  limiter accepts, \<open>start\<close> has added exactly 1 to the count of the command counter at
  \<open>command="start"\<close>, every other count being as before, whatever the rest of the
  handler does. (Nothing is said of whether the command is handled successfully.)
\<close>

theorem start_counts_command:
  assumes "effective_user upd = Some eu" and "\<not> faults inp AtRedis"
    and "fst (check_rate_limit (rate_limit b) (redis_store b) (current inp) (user_id eu))"
  shows "metric_name (command_counter Analytics_init) = ''bot_commands_total'' \<and>
         labelnames (command_counter Analytics_init) = [''command''] \<and>
         metric_name (payment_counter Analytics_init) = ''payments_total'' \<and>
         labelnames (payment_counter Analytics_init) = [''provider'', ''status''] \<and>
         samples (command_counter (analytics (snd (start inp upd b)))) =
           (samples (command_counter (analytics b)))
             ([''start''] := samples (command_counter (analytics b)) [''start''] + 1)"
proof -
  have n: "metric_name (command_counter Analytics_init) = ''bot_commands_total'' \<and>
         labelnames (command_counter Analytics_init) = [''command''] \<and>
         metric_name (payment_counter Analytics_init) = ''payments_total'' \<and>
         labelnames (payment_counter Analytics_init) = [''provider'', ''status'']"
    by (simp add: Analytics_init_def)
  have "analytics (snd (start inp upd b)) =
          (analytics b)\<lparr>command_counter := inc (command_counter (analytics b)) [''start'']\<rparr>"
    unfolding start_analytics by (rule start_try_analytics[OF assms])
  with n show ?thesis by (simp add: inc_def)
qed

text \<open>
  Scenario 1 of the specification: the new identity 42 with locale \<open>ru\<close> on a fresh bot.
  The count at \<open>command="start"\<close> goes from 0 to 1.
\<close>

theorem start_counts_command_witness:
  "fst (check_rate_limit (rate_limit (EnhancedTravelBot_init 60))
          (redis_store (EnhancedTravelBot_init 60)) 1700000000 42) \<and>
   samples (command_counter (analytics (EnhancedTravelBot_init 60))) [''start''] = 0 \<and>
   samples (command_counter (analytics (snd (start
      \<lparr>faults = (\<lambda>s. False), current = 1700000000, utc_created = 1700000000,
        utc_active = 1700000001\<rparr>
      \<lparr>effective_user = Some \<lparr>user_id = 42, language_code = Some ''ru''\<rparr>,
        message = Some 1, effective_message = Some 1\<rparr>
      (EnhancedTravelBot_init 60))))) [''start''] = 1"
proof -
  let ?inp = "\<lparr>faults = (\<lambda>s. False), current = 1700000000, utc_created = 1700000000,
        utc_active = 1700000001\<rparr>"
  let ?upd = "\<lparr>effective_user = Some \<lparr>user_id = 42, language_code = Some ''ru''\<rparr>,
        message = Some 1, effective_message = Some 1\<rparr>"
  let ?b = "EnhancedTravelBot_init 60"
  have a: "fst (check_rate_limit (rate_limit ?b) (redis_store ?b) 1700000000 42)"
    by (simp add: EnhancedTravelBot_init_def check_rate_limit_def rate_pipeline_def zset_at_def
          zadd_def zremrangebyscore_def zcard_def Let_def)
  have z: "samples (command_counter (analytics ?b)) [''start''] = 0"
    by (simp add: EnhancedTravelBot_init_def Analytics_init_def)
  have u: "effective_user ?upd = Some \<lparr>user_id = 42, language_code = Some ''ru''\<rparr>" by simp
  have f: "\<not> faults ?inp AtRedis" by simp
  have a': "fst (check_rate_limit (rate_limit ?b) (redis_store ?b) (current ?inp)
              (user_id \<lparr>user_id = 42, language_code = Some ''ru''\<rparr>))"
    using a by simp
  note w = start_counts_command[OF u f a']
  have "samples (command_counter (analytics (snd (start ?inp ?upd ?b)))) [''start''] = 1"
    using w z by simp
  with a z show ?thesis by blast
qed

text \<open>
  Claim C5 as stated names the command counter \<open>commands_total\<close>.
\<close>

theorem command_counter_name:
  "metric_name (command_counter Analytics_init) \<noteq> ''commands_total''"
  by (simp add: Analytics_init_def)

text \<open>
  Claim C4, as the code has it. When the body of \<open>start\<close> raises, whatever the exception
  and wherever it is raised, and the error reply does not itself raise, \<open>start\<close> returns
  \<open>ConversationHandler.END\<close>; the state is the one the body left, with one more message
  if the update has an effective message: the fixed text \<open>error_msg\<close>, which no language
  selects.
\<close>

theorem start_catches_exceptions:
  assumes "fst (start_try inp upd b) = Inl e" and "\<not> faults inp AtErrorReply"
  shows "start inp upd b =
           (Inr END,
            (snd (start_try inp upd b))\<lparr>outbox := outbox (snd (start_try inp upd b)) @
               (case effective_message upd of
                  None \<Rightarrow> []
                | Some mid \<Rightarrow>
                    [\<lparr>in_reply_to = mid, content = error_msg, parse_mode = None,
                      reply_markup = None\<rparr>])\<rparr>)"
proof -
  obtain b' where s: "start_try inp upd b = (Inl e, b')"
    using assms(1) by (cases "start_try inp upd b") auto
  show ?thesis
    using assms(2)
    by (simp add: start_def s handle_error_def send_ok split: option.splits)
qed

text \<open>
  Redis down for the new identity 42 with locale \<open>zh\<close>: the fixed text, and \<open>END\<close>.
\<close>

theorem start_catches_exceptions_witness:
  "fst (start_try
      \<lparr>faults = (\<lambda>s. s = AtRedis), current = 1700000000, utc_created = 1700000000,
        utc_active = 1700000001\<rparr>
      \<lparr>effective_user = Some \<lparr>user_id = 42, language_code = Some ''zh''\<rparr>,
        message = Some 1, effective_message = Some 1\<rparr>
      (EnhancedTravelBot_init 60)) = Inl RedisError \<and>
   start
      \<lparr>faults = (\<lambda>s. s = AtRedis), current = 1700000000, utc_created = 1700000000,
        utc_active = 1700000001\<rparr>
      \<lparr>effective_user = Some \<lparr>user_id = 42, language_code = Some ''zh''\<rparr>,
        message = Some 1, effective_message = Some 1\<rparr>
      (EnhancedTravelBot_init 60) =
   (Inr END,
    (EnhancedTravelBot_init 60)\<lparr>outbox :=
       [\<lparr>in_reply_to = 1, content = error_msg, parse_mode = None, reply_markup = None\<rparr>]\<rparr>)"
proof -
  let ?inp = "\<lparr>faults = (\<lambda>s. s = AtRedis), current = 1700000000, utc_created = 1700000000,
        utc_active = 1700000001\<rparr>"
  let ?upd = "\<lparr>effective_user = Some \<lparr>user_id = 42, language_code = Some ''zh''\<rparr>,
        message = Some 1, effective_message = Some 1\<rparr>"
  let ?b = "EnhancedTravelBot_init 60"
  have s: "start_try ?inp ?upd ?b = (Inl RedisError, ?b)"
    by (simp add: start_try_def)
  then have h: "fst (start_try ?inp ?upd ?b) = Inl RedisError" by simp
  have f: "\<not> faults ?inp AtErrorReply" by simp
  have o: "outbox ?b = []" by (simp add: EnhancedTravelBot_init_def)
  from start_catches_exceptions[OF h f] h show ?thesis
    by (simp add: s o)
qed

text \<open>
  Claim C4 as stated asks for an error message in the user's language. Identity 42 with
  locale \<open>en\<close> is stored with the language \<open>en\<close>; the body of \<open>start\<close> then raises
  (the profile just created cannot be read, and the reply would fail to send). The one
  message the user gets is \<open>error_msg\<close>, which is none of the English texts.
\<close>

theorem error_reply_is_not_localized:
  "map content (outbox (snd (start
      \<lparr>faults = (\<lambda>s. s = AtReply), current = 1700000000, utc_created = 1700000000,
        utc_active = 1700000001\<rparr>
      \<lparr>effective_user = Some \<lparr>user_id = 42, language_code = Some ''en''\<rparr>,
        message = Some 1, effective_message = Some 1\<rparr>
      (EnhancedTravelBot_init 60)))) = [error_msg] \<and>
   map language (users (snd (start
      \<lparr>faults = (\<lambda>s. s = AtReply), current = 1700000000, utc_created = 1700000000,
        utc_active = 1700000001\<rparr>
      \<lparr>effective_user = Some \<lparr>user_id = 42, language_code = Some ''en''\<rparr>,
        message = Some 1, effective_message = Some 1\<rparr>
      (EnhancedTravelBot_init 60)))) = [''en''] \<and>
   error_msg \<notin> set (map snd translations_en)"
proof -
  have e: "error_msg \<notin> set (map snd translations_en)"
    by (simp add: error_msg_def translations_en_def)
  from e show ?thesis
    by (simp add: bot_defs)
qed

end
